theory Spec2Isabelle
  imports
    Complex_Main
    "HOL-Library.List_Lexorder"
    "HOL-Library.Char_ord"
    "HOL-Library.Sublist"
begin

section \<open>The new-lineages study script\<close>

text \<open>
  The development embeds \<^verbatim>\<open>src/vital/models/new_lineages_new_label_study.py\<close>, a
  notebook-style script. The script talks to two collaborators whose code is elsewhere:
  the genome catalogue (\<^verbatim>\<open>Covid19Genome\<close>) and the model registry (\<^verbatim>\<open>Model\<close>).
  What they answer is taken as a parameter of the embedding; what the script asks them
  to do is recorded as a value.
\<close>

subsection \<open>Data\<close>

type_synonym lineage = string
type_synonym accession_path = string

text \<open>An entry of the list \<^verbatim>\<open>dataset\<close>: the tuple \<^verbatim>\<open>(label, accessions)\<close>.\<close>

type_synonym lineage_group = "lineage \<times> accession_path list"

text \<open>
  The exceptions of the script. \<open>FileNotFoundError\<close> is what \<^verbatim>\<open>open\<close> raises on a
  missing file, \<open>IndexError\<close> and \<open>KeyError\<close> come from \<^verbatim>\<open>xs[0]\<close> and \<^verbatim>\<open>d[k]\<close>,
  \<open>Exception\<close> carries the message of a \<^verbatim>\<open>raise Exception(...)\<close>.
\<close>

datatype error =
    FileNotFoundError
  | IndexError
  | KeyError
  | Exception string

subsection \<open>Slices\<close>

text \<open>
  \<^verbatim>\<open>xs[:k]\<close> on a Python list: the first \<open>k\<close> elements when \<open>k\<close> is not negative, all but
  the last \<open>-k\<close> elements when it is. It never raises.
\<close>

definition py_slice_to :: "int \<Rightarrow> 'a list \<Rightarrow> 'a list" where
  "py_slice_to k xs =
     (if 0 \<le> k then take (nat k) xs else take (length xs - nat (- k)) xs)"

subsection \<open>Reading the reference tree file (lines 47 to 55)\<close>

text \<open>\<^verbatim>\<open>line.split("\t")\<close>: the fields between tab characters, at least one.\<close>

fun split_tab :: "string \<Rightarrow> string list" where
  "split_tab [] = [[]]"
| "split_tab (c # cs) =
     (if c = CHR 0x09 then [] # split_tab cs
      else (c # hd (split_tab cs)) # tl (split_tab cs))"

text \<open>
  The loop over the file. The argument \<open>f\<close> is the list of lines the file iterator
  yields, each still carrying its line terminator; \<open>lineages_set\<close> is
  \<^verbatim>\<open>set(lineages)\<close>; the last argument is the list \<^verbatim>\<open>lineages_in_tree\<close> built so far.
\<close>

fun read_tree_loop :: "lineage set \<Rightarrow> string list \<Rightarrow> lineage list \<Rightarrow> lineage list" where
  "read_tree_loop lineages_set [] lineages_in_tree = lineages_in_tree"
| "read_tree_loop lineages_set (line # f) lineages_in_tree =
     (let lineage = hd (split_tab line) in
      if lineage \<in> lineages_set
      then read_tree_loop lineages_set f (lineages_in_tree @ [lineage])
      else read_tree_loop lineages_set f lineages_in_tree)"

text \<open>
  Lines 44 to 55: \<^verbatim>\<open>lineages_in_tree\<close> after the loop and \<^verbatim>\<open>lineages_in_tree.sort()\<close>.
  Strings are ordered as Python orders them, lexicographically by character code.
\<close>

definition lineages_in_tree :: "lineage list \<Rightarrow> string list \<Rightarrow> lineage list" where
  "lineages_in_tree lineages f = sort (read_tree_loop (set lineages) f [])"

text \<open>Line 59: \<^verbatim>\<open>lineages_in_tree_set = set(lineages_in_tree)\<close>.\<close>

definition lineages_in_tree_set :: "lineage list \<Rightarrow> string list \<Rightarrow> lineage set" where
  "lineages_in_tree_set lineages f = set (lineages_in_tree lineages f)"

subsection \<open>Partitioning (lines 56 to 66)\<close>

text \<open>
  The loop of \<^verbatim>\<open>get_dataset\<close>. \<open>accessions\<close> stands for
  \<^verbatim>\<open>covid19_genome.getLocalAccessionsPath\<close>, \<open>cap\<close> for the literal \<^verbatim>\<open>64\<close> of the slice
  \<^verbatim>\<open>[:64]\<close>. The state of the loop is the shared list \<^verbatim>\<open>dataset\<close> and the local list
  \<^verbatim>\<open>new_lineages\<close>.
\<close>

fun get_dataset_loop ::
  "(lineage \<Rightarrow> accession_path list) \<Rightarrow> lineage set \<Rightarrow> int \<Rightarrow> lineage list \<Rightarrow>
   lineage_group list \<Rightarrow> accession_path list \<Rightarrow> lineage_group list \<times> accession_path list"
where
  "get_dataset_loop accessions tree_set cap [] dataset new_lineages = (dataset, new_lineages)"
| "get_dataset_loop accessions tree_set cap (lineage # lineages) dataset new_lineages =
     (if lineage \<in> tree_set
      then get_dataset_loop accessions tree_set cap lineages
             (dataset @ [(lineage, accessions lineage)]) new_lineages
      else get_dataset_loop accessions tree_set cap lineages
             dataset (new_lineages @ py_slice_to cap (accessions lineage)))"

text \<open>
  \<^verbatim>\<open>get_dataset()\<close> with the cap as a parameter. The function appends to the list
  \<^verbatim>\<open>dataset\<close> of the enclosing scope and returns that same list, so the argument
  \<open>dataset\<close> is the content of the list when the call starts and the result is both
  the content afterwards and the value returned.
\<close>

definition get_dataset_cap ::
  "(lineage \<Rightarrow> accession_path list) \<Rightarrow> lineage list \<Rightarrow> lineage list \<Rightarrow> int \<Rightarrow>
   lineage_group list \<Rightarrow> lineage_group list"
where
  "get_dataset_cap accessions in_tree lineages cap dataset =
     (case get_dataset_loop accessions (set in_tree) cap lineages dataset [] of
        (dataset', new_lineages) \<Rightarrow> dataset' @ [(''new_lineages'', new_lineages)])"

text \<open>The function as the script has it, with the cap 64.\<close>

definition get_dataset ::
  "(lineage \<Rightarrow> accession_path list) \<Rightarrow> lineage list \<Rightarrow> lineage list \<Rightarrow>
   lineage_group list \<Rightarrow> lineage_group list"
where
  "get_dataset accessions in_tree lineages dataset =
     get_dataset_cap accessions in_tree lineages 64 dataset"

text \<open>
  Line 56 followed by line 74: \<^verbatim>\<open>dataset = []\<close>, then \<^verbatim>\<open>dataset = get_dataset()\<close>. The
  last argument is what the list \<^verbatim>\<open>dataset\<close> held before line 56 ran.
\<close>

definition reset_and_get_dataset ::
  "(lineage \<Rightarrow> accession_path list) \<Rightarrow> lineage list \<Rightarrow> lineage list \<Rightarrow>
   lineage_group list \<Rightarrow> lineage_group list"
where
  "reset_and_get_dataset accessions in_tree lineages dataset =
     (let dataset = [] in get_dataset accessions in_tree lineages dataset)"

text \<open>
  Notions used to state properties of the result: the lineages of the catalogue that
  are in the tree, in catalogue order, and those that are not.
\<close>

definition known_lineages :: "lineage list \<Rightarrow> lineage list \<Rightarrow> lineage list" where
  "known_lineages in_tree lineages = filter (\<lambda>l. l \<in> set in_tree) lineages"

definition novel_lineages :: "lineage list \<Rightarrow> lineage list \<Rightarrow> lineage list" where
  "novel_lineages in_tree lineages = filter (\<lambda>l. l \<notin> set in_tree) lineages"

text \<open>The catalogue of the worked example of the specification.\<close>

definition example_accessions :: "lineage \<Rightarrow> accession_path list" where
  "example_accessions l =
     (if l = ''A'' then [''a1'', ''a2'', ''a3'']
      else if l = ''B'' then [''b1'']
      else if l = ''C'' then [''c1'', ''c2'', ''c3'']
      else [])"

subsection \<open>Creating the datasets (lines 42 to 77)\<close>

text \<open>
  What the script asks of the model registry, in the order it asks. Values of dataset
  properties are integers or decimals; decimals are read as the rational they denote.
  The hyperparameters of \<^verbatim>\<open>add_ml_model\<close> are not recorded.
\<close>

datatype ds_val = IntV int | FloatV real

datatype command =
    Create_datasets string "lineage_group list" "(string \<times> real) list"
  | Update_ds_props "(string \<times> ds_val) list"
  | Add_ml_model string
  | Set_ds_batch_size int
  | Train string int

text \<open>
  The dictionary \<^verbatim>\<open>portions\<close> of lines 68 to 72, keyed by the names of the members of
  \<^verbatim>\<open>DatasetName\<close>.
\<close>

definition portions :: "(string \<times> real) list" where
  "portions = [(''trainset'', 0.8), (''validset'', 0.1), (''testset'', 0.1)]"

text \<open>
  The handler that runs when \<^verbatim>\<open>load_model\<close> fails. \<open>lineages\<close> is what
  \<^verbatim>\<open>getLocalLineages(512)\<close> returned, \<open>tree_file\<close> the lines of
  \<^verbatim>\<open>lineages_in_tree.txt\<close> or \<open>None\<close> when the file cannot be opened, \<open>ds_types\<close> what
  \<^verbatim>\<open>model.get_ds_types()\<close> returns. Line 56 sets \<^verbatim>\<open>dataset\<close> to the empty list before
  line 74 calls \<^verbatim>\<open>get_dataset()\<close>. The cap and the proportions are parameters here; the
  script fixes them below.
\<close>

definition create_datasets_with ::
  "int \<Rightarrow> (string \<times> real) list \<Rightarrow> lineage list \<Rightarrow> string list option \<Rightarrow>
   (lineage \<Rightarrow> accession_path list) \<Rightarrow> string list \<Rightarrow> error + command"
where
  "create_datasets_with cap props lineages tree_file accessions ds_types =
     (case tree_file of
        None \<Rightarrow> Inl FileNotFoundError
      | Some f \<Rightarrow>
          (let in_tree = lineages_in_tree lineages f;
               dataset = get_dataset_cap accessions in_tree lineages cap []
           in case ds_types of
                [] \<Rightarrow> Inl IndexError
              | ds_type # _ \<Rightarrow> Inr (Create_datasets ds_type dataset props)))"

definition create_datasets ::
  "lineage list \<Rightarrow> string list option \<Rightarrow> (lineage \<Rightarrow> accession_path list) \<Rightarrow>
   string list \<Rightarrow> error + command"
where
  "create_datasets = create_datasets_with 64 portions"

subsection \<open>After the datasets exist (lines 85 to 226)\<close>

definition frag_len :: int where "frag_len = 288"
definition coverage :: int where "coverage = 4"
definition ml_model_depth :: int where "ml_model_depth = 1"
definition sequencer_instrument :: string where "sequencer_instrument = ''ideal''"

definition sequencer_instrument_to_error_profile_map ::
  "(string \<times> (string \<times> ds_val) list) list"
where
  "sequencer_instrument_to_error_profile_map =
     [(''ideal'', [(''substitution_rate'', FloatV 0.0), (''insertion_rate'', FloatV 0.0),
                   (''deletion_rate'', FloatV 0.0)]),
      (''illumina'', [(''substitution_rate'', FloatV 0.005), (''insertion_rate'', FloatV 0.001),
                      (''deletion_rate'', FloatV 0.001)]),
      (''ont'', [(''substitution_rate'', FloatV 0.01), (''insertion_rate'', FloatV 0.04),
                 (''deletion_rate'', FloatV 0.04)]),
      (''pacbio'', [(''substitution_rate'', FloatV 0.005), (''insertion_rate'', FloatV 0.025),
                    (''deletion_rate'', FloatV 0.025)]),
      (''roche'', [(''substitution_rate'', FloatV 0.002), (''insertion_rate'', FloatV 0.01),
                   (''deletion_rate'', FloatV 0.01)])]"

text \<open>An integer as an f-string prints it: decimal digits, a minus sign when negative.\<close>

fun str_nat :: "nat \<Rightarrow> string" where
  "str_nat n =
     (if n < 10 then [char_of (48 + n)]
      else str_nat (n div 10) @ [char_of (48 + n mod 10)])"

declare str_nat.simps [simp del]

definition str_int :: "int \<Rightarrow> string" where
  "str_int i = (if i < 0 then CHR ''-'' # str_nat (nat (- i)) else str_nat (nat i))"

definition get_model_name :: "int \<Rightarrow> int \<Rightarrow> string \<Rightarrow> error + string" where
  "get_model_name depth cov instrument =
     (if map_of sequencer_instrument_to_error_profile_map instrument = None
      then Inl (Exception (''Invalid sequencer instrument: '' @ instrument))
      else Inr (''vit.'' @ str_int depth @ ''.'' @ str_int cov @ ''x.'' @ instrument))"

text \<open>
  The cells after the datasets exist. \<open>ml_model_structures\<close> is what
  \<^verbatim>\<open>model.get_ml_model_structures()\<close> returns and \<open>ds_props\<close> what
  \<^verbatim>\<open>model.get_ds_props()\<close> returns at lines 92 and 94. The body of the \<^verbatim>\<open>try\<close> of lines
  158 to 185 is decided by the registry and every failure in it is caught, so its
  outcome is the parameter \<open>add_succeeds\<close>. The other calls on the registry are taken
  to return. The result is the list of the changes asked of the registry, in order,
  and the exception that ended the script, if one did.
\<close>

definition after_creation ::
  "string list \<Rightarrow> (string \<rightharpoonup> ds_val) \<Rightarrow> bool \<Rightarrow> command list \<times> error option"
where
  "after_creation ml_model_structures ds_props add_succeeds =
     (case ml_model_structures of
        [] \<Rightarrow> ([], Some IndexError)
      | structure # _ \<Rightarrow>
          if ''frag_len'' \<notin> dom ds_props
          then ([], Some (Exception ''No fragment length exist in the dataset props.''))
          else
            (let supplied = [Update_ds_props [(''frag_len'', IntV frag_len)]] in
             case get_model_name ml_model_depth coverage sequencer_instrument of
               Inl e \<Rightarrow> (supplied, Some e)
             | Inr ml_model_name \<Rightarrow>
                 (let added = supplied @ (if add_succeeds then [Add_ml_model ml_model_name] else [])
                  in case map_of sequencer_instrument_to_error_profile_map sequencer_instrument of
                       None \<Rightarrow> (added, Some KeyError)
                     | Some profile \<Rightarrow>
                         (added @
                            [Update_ds_props ((''coverage'', IntV coverage) # profile),
                             Set_ds_batch_size 512,
                             Train ml_model_name 1000], None))))"

section \<open>Properties\<close>

subsection \<open>The loops as list functions\<close>

lemma split_tab_not_Nil: "split_tab line \<noteq> []"
  by (induction line) auto

lemma hd_split_tab: "hd (split_tab line) = takeWhile (\<lambda>c. c \<noteq> CHR 0x09) line"
  by (induction line) auto

lemma read_tree_loop_filter:
  "read_tree_loop S f acc = acc @ filter (\<lambda>l. l \<in> S) (map (\<lambda>line. hd (split_tab line)) f)"
  by (induction f arbitrary: acc) (auto simp: Let_def)

lemma py_slice_to_nonneg: "0 \<le> k \<Longrightarrow> py_slice_to k xs = take (nat k) xs"
  by (simp add: py_slice_to_def)

lemma get_dataset_loop_eq:
  "get_dataset_loop accessions S cap lineages dataset new_lineages =
     (dataset @ map (\<lambda>l. (l, accessions l)) (filter (\<lambda>l. l \<in> S) lineages),
      new_lineages @
        concat (map (\<lambda>l. py_slice_to cap (accessions l)) (filter (\<lambda>l. l \<notin> S) lineages)))"
  by (induction lineages arbitrary: dataset new_lineages) auto

lemma get_dataset_cap_eq:
  "get_dataset_cap accessions in_tree lineages cap dataset =
     dataset @ map (\<lambda>l. (l, accessions l)) (known_lineages in_tree lineages) @
       [(''new_lineages'',
         concat (map (\<lambda>l. py_slice_to cap (accessions l)) (novel_lineages in_tree lineages)))]"
  by (simp add: get_dataset_cap_def get_dataset_loop_eq known_lineages_def novel_lineages_def)

lemma lineages_in_tree_set_eq:
  "lineages_in_tree_set lineages f = (\<lambda>line. hd (split_tab line)) ` set f \<inter> set lineages"
  by (auto simp: lineages_in_tree_set_def lineages_in_tree_def read_tree_loop_filter)

text \<open>
  A line without a tab is its own first field, terminator included, so a file that
  lists bare names, one per line, puts no catalogue lineage into the tree.
\<close>

lemma first_field_keeps_terminator:
  "hd (split_tab (''A'' @ [CHR 0x0A])) = ''A'' @ [CHR 0x0A] \<and>
   lineages_in_tree_set [''A'', ''B''] [''A'' @ [CHR 0x0A], ''B'' @ [CHR 0x0A]] = {}"
  by (simp add: lineages_in_tree_set_eq)

lemma count_list_filter_in: "P l \<Longrightarrow> count_list (filter P xs) l = count_list xs l"
  by (induction xs) auto

lemma length_filter_eq_count: "length (filter (\<lambda>x. x = lab) xs) = count_list xs lab"
  by (induction xs) auto

lemma count_groups_labelled:
  "length (filter (\<lambda>g. fst g = lab) (map (\<lambda>l. (l, f l)) xs)) = count_list xs lab"
  by (simp add: comp_def length_filter_eq_count)

lemma count_list_distinct: "distinct xs \<Longrightarrow> l \<in> set xs \<Longrightarrow> count_list xs l = 1"
  by (induction xs) (auto simp: count_notin)

lemma concat_map_split:
  "l \<in> set xs \<Longrightarrow> \<exists>before after. concat (map g xs) = before @ g l @ after"
proof (induction xs)
  case Nil
  then show ?case by simp
next
  case (Cons x xs)
  show ?case
  proof (cases "x = l")
    case True
    have "concat (map g (x # xs)) = [] @ g l @ concat (map g xs)"
      using True by simp
    then show ?thesis by blast
  next
    case False
    with Cons obtain b a where "concat (map g xs) = b @ g l @ a" by auto
    then have "concat (map g (x # xs)) = (g x @ b) @ g l @ a" by simp
    then show ?thesis by blast
  qed
qed

lemma filter_label_known:
  "filter (\<lambda>g. fst g = lab) (map (\<lambda>l. (l, f l)) xs) =
     map (\<lambda>l. (l, f l)) (filter (\<lambda>l. l = lab) xs)"
  by (induction xs) auto

lemma get_model_name_script: "get_model_name 1 4 ''ideal'' = Inr ''vit.1.4x.ideal''"
  by code_simp

subsection \<open>The partition\<close>

text \<open>
  C1. Started on an empty \<^verbatim>\<open>dataset\<close>, as line 56 leaves it, the partition yields one
  group per lineage of the catalogue that is in the reference tree, in catalogue order,
  labelled with the lineage and holding all of its accessions, followed by the group
  \<^verbatim>\<open>new_lineages\<close> holding, in catalogue order, the first \<open>cap\<close> accessions of each
  lineage that is not in the tree. On the catalogue A, B, C of the specification with
  A and B in the tree and cap 2 the result is the three groups the specification lists.
\<close>

theorem get_dataset_partition:
  "(0 \<le> cap \<longrightarrow>
      get_dataset_cap accessions in_tree lineages cap [] =
        map (\<lambda>l. (l, accessions l)) (filter (\<lambda>l. l \<in> set in_tree) lineages) @
        [(''new_lineages'',
          concat (map (\<lambda>l. take (nat cap) (accessions l))
                    (filter (\<lambda>l. l \<notin> set in_tree) lineages)))]) \<and>
   get_dataset_cap example_accessions [''A'', ''B''] [''A'', ''B'', ''C''] 2 [] =
     [(''A'', [''a1'', ''a2'', ''a3'']), (''B'', [''b1'']), (''new_lineages'', [''c1'', ''c2''])]"
proof (intro conjI impI)
  assume "0 \<le> cap"
  then show "get_dataset_cap accessions in_tree lineages cap [] =
      map (\<lambda>l. (l, accessions l)) (filter (\<lambda>l. l \<in> set in_tree) lineages) @
      [(''new_lineages'',
        concat (map (\<lambda>l. take (nat cap) (accessions l))
                  (filter (\<lambda>l. l \<notin> set in_tree) lineages)))]"
    by (simp add: get_dataset_cap_eq known_lineages_def novel_lineages_def py_slice_to_nonneg)
next
  show "get_dataset_cap example_accessions [''A'', ''B''] [''A'', ''B'', ''C''] 2 [] =
     [(''A'', [''a1'', ''a2'', ''a3'']), (''B'', [''b1'']), (''new_lineages'', [''c1'', ''c2''])]"
    by (simp add: get_dataset_cap_def example_accessions_def py_slice_to_def)
qed

theorem get_dataset_partition_witness:
  "(0::int) \<le> 64 \<and>
   get_dataset example_accessions [''A'', ''B''] [''A'', ''B'', ''C''] [] =
     [(''A'', [''a1'', ''a2'', ''a3'']), (''B'', [''b1'']),
      (''new_lineages'', [''c1'', ''c2'', ''c3''])]"
  using get_dataset_partition [of 64 example_accessions "[''A'', ''B'']" "[''A'', ''B'', ''C'']"]
  by (simp add: get_dataset_def example_accessions_def)

text \<open>
  C2. When the catalogue lists no lineage twice and no known lineage is named
  \<^verbatim>\<open>new_lineages\<close>, every lineage of the catalogue appears in exactly one group of the
  result. The result is the groups of the known lineages followed by the group
  \<^verbatim>\<open>new_lineages\<close>, which concatenates the contributions of the novel lineages. A
  lineage that is in the tree is the label of exactly one group of the result, its own,
  and contributes nothing to \<^verbatim>\<open>new_lineages\<close>; a lineage that is not in the tree is the
  label of none of the groups before the last and contributes exactly one segment of
  the accessions of \<^verbatim>\<open>new_lineages\<close>.
\<close>

theorem every_lineage_in_one_group:
  assumes "distinct lineages"
    and "''new_lineages'' \<notin> set (known_lineages in_tree lineages)"
    and "l \<in> set lineages"
  shows "butlast (get_dataset_cap accessions in_tree lineages cap []) =
           map (\<lambda>l. (l, accessions l)) (known_lineages in_tree lineages) \<and>
         last (get_dataset_cap accessions in_tree lineages cap []) =
           (''new_lineages'',
            concat (map (\<lambda>l. py_slice_to cap (accessions l))
                      (novel_lineages in_tree lineages))) \<and>
         (if l \<in> set in_tree
          then length (filter (\<lambda>g. fst g = l)
                         (get_dataset_cap accessions in_tree lineages cap [])) = 1 \<and>
               (l, accessions l) \<in> set (get_dataset_cap accessions in_tree lineages cap []) \<and>
               count_list (novel_lineages in_tree lineages) l = 0
          else length (filter (\<lambda>g. fst g = l)
                         (butlast (get_dataset_cap accessions in_tree lineages cap []))) = 0 \<and>
               count_list (novel_lineages in_tree lineages) l = 1 \<and>
               (\<exists>before after.
                  snd (last (get_dataset_cap accessions in_tree lineages cap [])) =
                    before @ py_slice_to cap (accessions l) @ after))"
proof -
  let ?out = "get_dataset_cap accessions in_tree lineages cap []"
  let ?known = "known_lineages in_tree lineages"
  let ?novel = "novel_lineages in_tree lineages"
  have bl: "butlast ?out = map (\<lambda>l. (l, accessions l)) ?known"
    by (simp add: get_dataset_cap_eq butlast_append)
  have la: "last ?out =
      (''new_lineages'', concat (map (\<lambda>l. py_slice_to cap (accessions l)) ?novel))"
    by (simp add: get_dataset_cap_eq)
  have once: "count_list lineages l = 1"
    using assms(1,3) by (rule count_list_distinct)
  show ?thesis
  proof (cases "l \<in> set in_tree")
    case True
    then have k: "l \<in> set ?known"
      using assms(3) by (simp add: known_lineages_def)
    with assms(2) have ne: "l \<noteq> ''new_lineages''" by auto
    have ck: "count_list ?known l = 1"
      using True once by (simp add: known_lineages_def count_list_filter_in)
    have "length (filter (\<lambda>g. fst g = l) ?out) = 1"
      using ne ck by (simp add: get_dataset_cap_eq comp_def length_filter_eq_count)
    moreover have "(l, accessions l) \<in> set ?out"
      using k by (simp add: get_dataset_cap_eq)
    moreover have "count_list ?novel l = 0"
      using True by (simp add: novel_lineages_def count_notin)
    ultimately show ?thesis using True bl la by simp
  next
    case False
    then have n: "l \<in> set ?novel"
      using assms(3) by (simp add: novel_lineages_def)
    have "l \<notin> set ?known"
      using False by (simp add: known_lineages_def)
    then have "count_list ?known l = 0"
      by (rule count_notin)
    then have "length (filter (\<lambda>g. fst g = l) (butlast ?out)) = 0"
      by (simp only: bl count_groups_labelled)
    moreover have "count_list ?novel l = 1"
      using False once by (simp add: novel_lineages_def count_list_filter_in)
    moreover have "\<exists>before after.
        snd (last ?out) = before @ py_slice_to cap (accessions l) @ after"
      using concat_map_split [OF n, of "\<lambda>l. py_slice_to cap (accessions l)"]
      by (simp add: la)
    ultimately show ?thesis using False bl la by simp
  qed
qed

theorem every_lineage_in_one_group_witness:
  "distinct [''A'', ''B'', ''C''] \<and>
   ''new_lineages'' \<notin> set (known_lineages [''A'', ''B''] [''A'', ''B'', ''C'']) \<and>
   ''A'' \<in> set [''A'', ''B'', ''C''] \<and> ''C'' \<in> set [''A'', ''B'', ''C''] \<and>
   length (filter (\<lambda>g. fst g = ''A'')
     (get_dataset_cap example_accessions [''A'', ''B''] [''A'', ''B'', ''C''] 64 [])) = 1 \<and>
   length (filter (\<lambda>g. fst g = ''C'')
     (butlast (get_dataset_cap example_accessions [''A'', ''B''] [''A'', ''B'', ''C''] 64 []))) = 0 \<and>
   count_list (novel_lineages [''A'', ''B''] [''A'', ''B'', ''C'']) ''C'' = 1 \<and>
   last (get_dataset_cap example_accessions [''A'', ''B''] [''A'', ''B'', ''C''] 64 []) =
     (''new_lineages'', [''c1'', ''c2'', ''c3''])"
  using every_lineage_in_one_group
      [of "[''A'', ''B'', ''C'']" "[''A'', ''B'']" "''A''" example_accessions 64]
    every_lineage_in_one_group
      [of "[''A'', ''B'', ''C'']" "[''A'', ''B'']" "''C''" example_accessions 64]
  by (simp add: known_lineages_def novel_lineages_def example_accessions_def py_slice_to_def)

text \<open>
  A catalogue that lists the tree lineage \<^verbatim>\<open>A\<close> twice yields two groups labelled
  \<^verbatim>\<open>A\<close>; a catalogue without repetition whose tree lineages are \<^verbatim>\<open>B\<close> and
  \<^verbatim>\<open>new_lineages\<close> yields two groups labelled \<^verbatim>\<open>new_lineages\<close>.
\<close>

theorem lineage_in_two_groups_counterexample:
  "length (filter (\<lambda>g. fst g = ''A'')
     (get_dataset example_accessions [''A''] [''A'', ''C'', ''A'', ''C''] [])) = 2 \<and>
   length (filter (\<lambda>g. fst g = ''new_lineages'')
     (get_dataset example_accessions [''B'', ''new_lineages''] [''B'', ''new_lineages''] [])) = 2"
  by (simp add: get_dataset_def get_dataset_cap_def example_accessions_def py_slice_to_def)

text \<open>
  C3. For a cap that is not negative and a lineage of the catalogue that is not in the
  tree, the last group is \<^verbatim>\<open>new_lineages\<close> and the contribution of the lineage is a
  segment of its accession list: all of the lineage's accessions when there are at most
  \<open>cap\<close> of them, otherwise exactly \<open>cap\<close> of them, namely the front of the lineage's
  list in the catalogue's order.
\<close>

theorem novel_prefix_cap:
  assumes "0 \<le> cap" and "l \<in> set lineages" and "l \<notin> set in_tree"
  shows "last (get_dataset_cap accessions in_tree lineages cap []) =
           (''new_lineages'',
            concat (map (\<lambda>l. py_slice_to cap (accessions l))
                      (novel_lineages in_tree lineages))) \<and>
         l \<in> set (novel_lineages in_tree lineages) \<and>
         (\<exists>before after.
            snd (last (get_dataset_cap accessions in_tree lineages cap [])) =
              before @ py_slice_to cap (accessions l) @ after) \<and>
         (if int (length (accessions l)) \<le> cap
          then py_slice_to cap (accessions l) = accessions l
          else int (length (py_slice_to cap (accessions l))) = cap \<and>
               py_slice_to cap (accessions l) = take (nat cap) (accessions l) \<and>
               prefix (py_slice_to cap (accessions l)) (accessions l))"
proof -
  have mem: "l \<in> set (novel_lineages in_tree lineages)"
    using assms by (simp add: novel_lineages_def)
  have lst: "last (get_dataset_cap accessions in_tree lineages cap []) =
           (''new_lineages'',
            concat (map (\<lambda>l. py_slice_to cap (accessions l))
                      (novel_lineages in_tree lineages)))"
    by (simp add: get_dataset_cap_eq)
  have ex: "\<exists>before after.
            snd (last (get_dataset_cap accessions in_tree lineages cap [])) =
              before @ py_slice_to cap (accessions l) @ after"
    using concat_map_split [OF mem, of "\<lambda>l. py_slice_to cap (accessions l)"]
    by (simp add: lst)
  have sl: "if int (length (accessions l)) \<le> cap
          then py_slice_to cap (accessions l) = accessions l
          else int (length (py_slice_to cap (accessions l))) = cap \<and>
               py_slice_to cap (accessions l) = take (nat cap) (accessions l) \<and>
               prefix (py_slice_to cap (accessions l)) (accessions l)"
    using assms(1) by (auto simp: py_slice_to_nonneg take_is_prefix)
  show ?thesis using mem lst ex sl by blast
qed

theorem novel_prefix_cap_witness:
  "(0::int) \<le> 2 \<and> ''C'' \<in> set [''A'', ''B'', ''C''] \<and> ''C'' \<notin> set [''A'', ''B''] \<and>
   last (get_dataset_cap example_accessions [''A'', ''B''] [''A'', ''B'', ''C''] 2 []) =
     (''new_lineages'', [''c1'', ''c2'']) \<and>
   py_slice_to 2 (example_accessions ''C'') = [''c1'', ''c2''] \<and>
   prefix [''c1'', ''c2''] (example_accessions ''C'') \<and>
   last (get_dataset_cap example_accessions [''A'', ''B''] [''A'', ''B'', ''C''] 64 []) =
     (''new_lineages'', [''c1'', ''c2'', ''c3''])"
  using novel_prefix_cap
    [of 2 "''C''" "[''A'', ''B'', ''C'']" "[''A'', ''B'']" example_accessions]
    novel_prefix_cap
    [of 64 "''C''" "[''A'', ''B'', ''C'']" "[''A'', ''B'']" example_accessions]
  by (simp add: novel_lineages_def example_accessions_def py_slice_to_def)

text \<open>
  C4. The result always ends with one appended group labelled \<^verbatim>\<open>new_lineages\<close>, after
  the groups of all the known lineages; when every lineage of the catalogue is in the
  tree that group is there with an empty accession list; and it is the only group with
  that label provided no known lineage is itself named \<^verbatim>\<open>new_lineages\<close>.
\<close>

theorem new_lineages_group_last:
  "get_dataset_cap accessions in_tree lineages cap [] =
     map (\<lambda>l. (l, accessions l)) (known_lineages in_tree lineages) @
     [last (get_dataset_cap accessions in_tree lineages cap [])] \<and>
   fst (last (get_dataset_cap accessions in_tree lineages cap [])) = ''new_lineages'' \<and>
   (set lineages \<subseteq> set in_tree \<longrightarrow>
      last (get_dataset_cap accessions in_tree lineages cap []) = (''new_lineages'', [])) \<and>
   (''new_lineages'' \<notin> set (known_lineages in_tree lineages) \<longrightarrow>
      length (filter (\<lambda>g. fst g = ''new_lineages'')
                (get_dataset_cap accessions in_tree lineages cap [])) = 1)"
proof -
  have "set lineages \<subseteq> set in_tree \<Longrightarrow> novel_lineages in_tree lineages = []"
    by (auto simp: novel_lineages_def filter_empty_conv)
  moreover have "''new_lineages'' \<notin> set (known_lineages in_tree lineages) \<Longrightarrow>
     filter (\<lambda>l. l = ''new_lineages'') (known_lineages in_tree lineages) = []"
    by (auto simp: filter_empty_conv)
  ultimately show ?thesis
    by (simp add: get_dataset_cap_eq filter_label_known)
qed

theorem new_lineages_group_last_witness:
  "set [''A'', ''B''] \<subseteq> set [''A'', ''B''] \<and>
   ''new_lineages'' \<notin> set (known_lineages [''A'', ''B''] [''A'', ''B'']) \<and>
   get_dataset_cap example_accessions [''A'', ''B''] [''A'', ''B''] 64 [] =
     [(''A'', [''a1'', ''a2'', ''a3'']), (''B'', [''b1'']), (''new_lineages'', [])] \<and>
   length (filter (\<lambda>g. fst g = ''new_lineages'')
             (get_dataset_cap example_accessions [''A'', ''B''] [''A'', ''B''] 64 [])) = 1"
  using new_lineages_group_last [of example_accessions "[''A'', ''B'']" "[''A'', ''B'']" 64]
  by (simp add: known_lineages_def example_accessions_def get_dataset_cap_def)

text \<open>
  A catalogue whose only lineage is named \<^verbatim>\<open>new_lineages\<close> and is listed in the tree
  file: the result holds two groups with that label, the lineage's own and the
  appended one.
\<close>

theorem new_lineages_twice_counterexample:
  "get_dataset (\<lambda>l. [''p1''])
     (lineages_in_tree [''new_lineages''] [''new_lineages'' @ [CHR 0x09] @ ''1''])
     [''new_lineages''] [] =
     [(''new_lineages'', [''p1'']), (''new_lineages'', [])] \<and>
   length (filter (\<lambda>g. fst g = ''new_lineages'')
     (get_dataset (\<lambda>l. [''p1''])
        (lineages_in_tree [''new_lineages''] [''new_lineages'' @ [CHR 0x09] @ ''1''])
        [''new_lineages''] [])) = 2"
  by (simp add: get_dataset_def get_dataset_cap_def lineages_in_tree_def)

text \<open>
  C9. When the catalogue lists no lineage twice and no known lineage is named
  \<^verbatim>\<open>new_lineages\<close>, the labels of the result are pairwise different.
\<close>

theorem labels_unique:
  assumes "distinct lineages" and "''new_lineages'' \<notin> set (known_lineages in_tree lineages)"
  shows "distinct (map fst (get_dataset_cap accessions in_tree lineages cap []))"
proof -
  have "map fst (get_dataset_cap accessions in_tree lineages cap []) =
          known_lineages in_tree lineages @ [''new_lineages'']"
    by (simp add: get_dataset_cap_eq comp_def)
  moreover have "distinct (known_lineages in_tree lineages)"
    using assms(1) by (simp add: known_lineages_def)
  ultimately show ?thesis using assms(2) by simp
qed

theorem labels_unique_witness:
  "distinct [''A'', ''B'', ''C''] \<and>
   ''new_lineages'' \<notin> set (known_lineages [''A'', ''B''] [''A'', ''B'', ''C'']) \<and>
   distinct (map fst
     (get_dataset_cap example_accessions [''A'', ''B''] [''A'', ''B'', ''C''] 64 []))"
  using labels_unique [of "[''A'', ''B'', ''C'']" "[''A'', ''B'']" example_accessions 64]
  by (simp add: known_lineages_def)

text \<open>
  With the lineages \<^verbatim>\<open>A\<close> and \<^verbatim>\<open>new_lineages\<close> in the catalogue and only the second in
  the tree, two groups of the result carry the label \<^verbatim>\<open>new_lineages\<close>.
\<close>

theorem labels_not_unique_counterexample:
  "\<not> distinct (map fst
      (get_dataset example_accessions [''new_lineages''] [''A'', ''new_lineages''] []))"
  by (simp add: get_dataset_def get_dataset_cap_def example_accessions_def py_slice_to_def)

subsection \<open>State between calls\<close>

text \<open>
  C6. Run as the script runs it, with the list \<^verbatim>\<open>dataset\<close> emptied at line 56 before the
  one call of line 74, the partition depends on the catalogue and the tree alone: what
  the list held before does not matter, running the two lines again gives the same
  groups in the same order, and the groups are the known ones followed by
  \<^verbatim>\<open>new_lineages\<close>. The function \<^verbatim>\<open>get_dataset\<close> by itself keeps state: it appends those
  groups to whatever the list \<^verbatim>\<open>dataset\<close> already holds.
\<close>

theorem partition_deterministic_after_reset:
  "reset_and_get_dataset accessions in_tree lineages dataset =
     reset_and_get_dataset accessions in_tree lineages dataset' \<and>
   reset_and_get_dataset accessions in_tree lineages
     (reset_and_get_dataset accessions in_tree lineages dataset) =
     reset_and_get_dataset accessions in_tree lineages dataset \<and>
   reset_and_get_dataset accessions in_tree lineages dataset =
     map (\<lambda>l. (l, accessions l)) (known_lineages in_tree lineages) @
     [(''new_lineages'',
       concat (map (\<lambda>l. take 64 (accessions l)) (novel_lineages in_tree lineages)))] \<and>
   get_dataset accessions in_tree lineages dataset =
     dataset @ reset_and_get_dataset accessions in_tree lineages dataset"
  by (simp add: reset_and_get_dataset_def get_dataset_def get_dataset_cap_eq py_slice_to_def)

text \<open>
  A second call of \<^verbatim>\<open>get_dataset\<close> on the list the first call left behind returns a
  different list: the three groups twice.
\<close>

theorem get_dataset_twice_counterexample:
  "get_dataset example_accessions [''A'', ''B''] [''A'', ''B'', ''C'']
     (get_dataset example_accessions [''A'', ''B''] [''A'', ''B'', ''C''] []) \<noteq>
   get_dataset example_accessions [''A'', ''B''] [''A'', ''B'', ''C''] []"
  by (simp add: get_dataset_def get_dataset_cap_def example_accessions_def py_slice_to_def)

subsection \<open>The reference tree file\<close>

text \<open>
  C5. The membership set used by the partition holds exactly the first tab-separated
  fields of the lines of the tree file that are lineages of the catalogue: the first
  field of a line is the line up to its first tab; a line that occurs twice changes
  neither the set nor the partition; a name that is not in the catalogue is not in the
  set; and reading such a file raises nothing, the script goes on to ask for the
  datasets.
\<close>

theorem reference_membership_from_file:
  "lineages_in_tree_set lineages f =
     (\<lambda>line. takeWhile (\<lambda>c. c \<noteq> CHR 0x09) line) ` set f \<inter> set lineages \<and>
   hd (split_tab line) = takeWhile (\<lambda>c. c \<noteq> CHR 0x09) line \<and>
   lineages_in_tree_set lineages (line # line # f) = lineages_in_tree_set lineages (line # f) \<and>
   get_dataset_cap accessions (lineages_in_tree lineages (line # line # f)) lineages cap [] =
     get_dataset_cap accessions (lineages_in_tree lineages (line # f)) lineages cap [] \<and>
   (name \<notin> set lineages \<longrightarrow> name \<notin> lineages_in_tree_set lineages f) \<and>
   create_datasets_with cap props lineages (Some f) accessions (ds_type # ds_types) =
     Inr (Create_datasets ds_type
            (get_dataset_cap accessions (lineages_in_tree lineages f) lineages cap []) props)"
proof -
  have a: "lineages_in_tree_set lineages f =
     (\<lambda>line. takeWhile (\<lambda>c. c \<noteq> CHR 0x09) line) ` set f \<inter> set lineages" for f
    by (simp add: lineages_in_tree_set_eq hd_split_tab)
  have b: "lineages_in_tree_set lineages (line # line # f) =
     lineages_in_tree_set lineages (line # f)"
    by (simp add: a)
  have c: "get_dataset_cap accessions (lineages_in_tree lineages (line # line # f)) lineages cap [] =
     get_dataset_cap accessions (lineages_in_tree lineages (line # f)) lineages cap []"
    using b by (simp add: get_dataset_cap_def lineages_in_tree_set_def)
  have d: "name \<notin> set lineages \<longrightarrow> name \<notin> lineages_in_tree_set lineages f"
    by (simp add: a)
  have e: "create_datasets_with cap props lineages (Some f) accessions (ds_type # ds_types) =
     Inr (Create_datasets ds_type
            (get_dataset_cap accessions (lineages_in_tree lineages f) lineages cap []) props)"
    by (simp add: create_datasets_with_def)
  show ?thesis using a b c d e hd_split_tab by blast
qed

theorem reference_membership_from_file_witness:
  "''Z'' \<notin> set [''A'', ''B'', ''C''] \<and>
   lineages_in_tree_set [''A'', ''B'', ''C'']
     [''B'' @ [CHR 0x09] @ ''7'', ''Z'' @ [CHR 0x09] @ ''1'', ''A'' @ [CHR 0x09, CHR 0x0A],
      ''B'' @ [CHR 0x09] @ ''7''] = {''A'', ''B''} \<and>
   ''Z'' \<notin> lineages_in_tree_set [''A'', ''B'', ''C'']
     [''B'' @ [CHR 0x09] @ ''7'', ''Z'' @ [CHR 0x09] @ ''1'', ''A'' @ [CHR 0x09, CHR 0x0A],
      ''B'' @ [CHR 0x09] @ ''7'']"
  using reference_membership_from_file
    [of "[''A'', ''B'', ''C'']"
        "[''B'' @ [CHR 0x09] @ ''7'', ''Z'' @ [CHR 0x09] @ ''1'', ''A'' @ [CHR 0x09, CHR 0x0A],
          ''B'' @ [CHR 0x09] @ ''7'']" "''Z''"]
  by auto

subsection \<open>The fragment length\<close>

text \<open>
  C10. When the registry knows at least one model structure, the cells after the
  creation of the datasets do one of two things. If the dataset properties do not hold
  \<^verbatim>\<open>frag_len\<close>, the script raises an exception and has asked nothing of the registry:
  no property is set and nothing is trained. If they do, the first request sets
  \<^verbatim>\<open>frag_len\<close> to 288 and training is the last request, so the fragment length is
  supplied before training.
\<close>

theorem frag_len_supplied_or_raise:
  "(''frag_len'' \<notin> dom ds_props \<longrightarrow>
      after_creation (structure # structures) ds_props add_succeeds =
        ([], Some (Exception ''No fragment length exist in the dataset props.''))) \<and>
   (''frag_len'' \<in> dom ds_props \<longrightarrow>
      after_creation (structure # structures) ds_props add_succeeds =
        (Update_ds_props [(''frag_len'', IntV 288)] #
         (if add_succeeds then [Add_ml_model ''vit.1.4x.ideal''] else []) @
         [Update_ds_props
            [(''coverage'', IntV 4), (''substitution_rate'', FloatV 0),
             (''insertion_rate'', FloatV 0), (''deletion_rate'', FloatV 0)],
          Set_ds_batch_size 512,
          Train ''vit.1.4x.ideal'' 1000], None))"
  by (simp add: after_creation_def get_model_name_script frag_len_def coverage_def
      ml_model_depth_def sequencer_instrument_def sequencer_instrument_to_error_profile_map_def)

theorem frag_len_supplied_or_raise_witness:
  "''frag_len'' \<notin> dom (Map.empty :: string \<rightharpoonup> ds_val) \<and>
   after_creation [''VitStructure''] Map.empty True =
     ([], Some (Exception ''No fragment length exist in the dataset props.'')) \<and>
   ''frag_len'' \<in> dom [''frag_len'' \<mapsto> IntV 0] \<and>
   after_creation [''VitStructure''] [''frag_len'' \<mapsto> IntV 0] True =
     ([Update_ds_props [(''frag_len'', IntV 288)],
       Add_ml_model ''vit.1.4x.ideal'',
       Update_ds_props
         [(''coverage'', IntV 4), (''substitution_rate'', FloatV 0),
          (''insertion_rate'', FloatV 0), (''deletion_rate'', FloatV 0)],
       Set_ds_batch_size 512,
       Train ''vit.1.4x.ideal'' 1000], None)"
  using frag_len_supplied_or_raise [of Map.empty "''VitStructure''" "[]" True]
    frag_len_supplied_or_raise [of "[''frag_len'' \<mapsto> IntV 0]" "''VitStructure''" "[]" True]
  by simp

end
